theory Spec2Isabelle
  imports Main "HOL-Library.Word"
begin

section \<open>Python values, errors and process outcomes\<close>

text \<open>
  The sink-stream harness of \<^verbatim>\<open>java/connector-node/python-client/integration_tests.py\<close>
  works on the values \<^verbatim>\<open>json.load\<close> returns and on database cells. They are modelled by
  one datatype of Python values: \<^verbatim>\<open>None\<close>, \<^verbatim>\<open>bool\<close>, the unbounded \<^verbatim>\<open>int\<close>,
  \<^verbatim>\<open>str\<close>, \<^verbatim>\<open>list\<close> and \<^verbatim>\<open>dict\<close> with string keys, kept in insertion order as a
  Python dict keeps them. A dict that \<^verbatim>\<open>json.load\<close> returns has distinct keys.
  Floating-point numbers are left out, and a character stands for one code point below 256.
\<close>

datatype pyval =
    PNone
  | PBool bool
  | PInt int
  | PStr string
  | PList "pyval list"
  | PDict "(string \<times> pyval) list"

datatype pyerr =
    TypeError
  | ValueError
  | KeyError string
  | IndexError
  | AttributeError
  | StopIteration
  | RpcError string
  | OSError
  | JSONDecodeError
  | DatabaseError

text \<open>How a call ends: it returns, an exception leaves it, or \<^verbatim>\<open>exit(n)\<close> ends the process.\<close>

datatype outcome = Returned | Raised pyerr | Exited int

type_synonym bytes = "8 word list"

subsection \<open>Equality, iteration and subscripts of Python values\<close>

text \<open>
  \<^verbatim>\<open>a == b\<close>: \<^verbatim>\<open>bool\<close> is a subclass of \<^verbatim>\<open>int\<close>, so \<^verbatim>\<open>True == 1\<close> and \<^verbatim>\<open>False == 0\<close>;
  lists are compared element by element, dicts key by key whatever their order.
\<close>

fun py_eq :: "pyval \<Rightarrow> pyval \<Rightarrow> bool" where
  "py_eq PNone PNone = True"
| "py_eq (PBool a) (PBool b) = (a = b)"
| "py_eq (PBool a) (PInt n) = ((if a then 1 else 0) = n)"
| "py_eq (PInt n) (PBool a) = (n = (if a then 1 else 0))"
| "py_eq (PInt m) (PInt n) = (m = n)"
| "py_eq (PStr s) (PStr t) = (s = t)"
| "py_eq (PList xs) (PList ys) = list_all2 (\<lambda>x y. py_eq x y) xs ys"
| "py_eq (PDict a) (PDict b) =
     (length a = length b \<and>
      list_all (\<lambda>kv. case map_of b (fst kv) of None \<Rightarrow> False | Some w \<Rightarrow> py_eq (snd kv) w) a)"
| "py_eq _ _ = False"

definition py_ne :: "pyval \<Rightarrow> pyval \<Rightarrow> bool" where
  "py_ne a b = (\<not> py_eq a b)"

text \<open>
  \<^verbatim>\<open>for x in v\<close>: a list gives its elements, a dict its keys, a string its characters;
  the other values are not iterable.
\<close>

fun py_iter :: "pyval \<Rightarrow> pyerr + pyval list" where
  "py_iter (PList xs) = Inr xs"
| "py_iter (PDict kvs) = Inr (map (\<lambda>kv. PStr (fst kv)) kvs)"
| "py_iter (PStr s) = Inr (map (\<lambda>c. PStr [c]) s)"
| "py_iter _ = Inl TypeError"

text \<open>\<^verbatim>\<open>v[k]\<close> for a string key \<^verbatim>\<open>k\<close>: only a dict accepts it.\<close>

fun py_getitem :: "pyval \<Rightarrow> string \<Rightarrow> pyerr + pyval" where
  "py_getitem (PDict kvs) k = (case map_of kvs k of None \<Rightarrow> Inl (KeyError k) | Some v \<Rightarrow> Inr v)"
| "py_getitem _ k = Inl TypeError"

text \<open>\<^verbatim>\<open>list(v.values())\<close>: only a dict has the method.\<close>

fun py_values :: "pyval \<Rightarrow> pyerr + pyval list" where
  "py_values (PDict kvs) = Inr (map snd kvs)"
| "py_values _ = Inl AttributeError"

subsection \<open>\<^verbatim>\<open>str\<close> and \<^verbatim>\<open>repr\<close>\<close>

text \<open>
  \<^verbatim>\<open>str(v)\<close> is the string itself for a string and \<^verbatim>\<open>repr(v)\<close> for the other values.
  \<^verbatim>\<open>repr\<close> of a string quotes it with \<^verbatim>\<open>'\<close>, or with \<^verbatim>\<open>"\<close> when the string holds a
  \<^verbatim>\<open>'\<close> and no \<^verbatim>\<open>"\<close>, and escapes the quote, the backslash and the characters that are
  not printable.
\<close>

definition digit_char :: "nat \<Rightarrow> char" where
  "digit_char d = (''0123456789abcdef'' ! d)"

fun str_nat :: "nat \<Rightarrow> string" where
  "str_nat n = (if n < 10 then [digit_char n] else str_nat (n div 10) @ [digit_char (n mod 10)])"

declare str_nat.simps [simp del]

definition str_int :: "int \<Rightarrow> string" where
  "str_int i = (if i < 0 then CHR ''-'' # str_nat (nat (- i)) else str_nat (nat i))"

definition hex_escape :: "char \<Rightarrow> string" where
  "hex_escape c =
     [CHR 0x5C, CHR ''x'', digit_char ((of_char c :: nat) div 16), digit_char ((of_char c :: nat) mod 16)]"

definition repr_char :: "char \<Rightarrow> char \<Rightarrow> string" where
  "repr_char quote c =
     (if c = quote \<or> c = CHR 0x5C then [CHR 0x5C, c]
      else if c = CHR 0x09 then [CHR 0x5C, CHR ''t'']
      else if c = CHR 0x0A then [CHR 0x5C, CHR ''n'']
      else if c = CHR 0x0D then [CHR 0x5C, CHR ''r'']
      else if (of_char c :: nat) < 0x20 \<or> (of_char c :: nat) = 0x7F then hex_escape c
      else if (of_char c :: nat) < 0x7F then [c]
      else if (of_char c :: nat) \<le> 0xA0 \<or> (of_char c :: nat) = 0xAD then hex_escape c
      else [c])"

definition repr_quote :: "string \<Rightarrow> char" where
  "repr_quote s = (if CHR 0x27 \<in> set s \<and> CHR 0x22 \<notin> set s then CHR 0x22 else CHR 0x27)"

definition str_repr :: "string \<Rightarrow> string" where
  "str_repr s = repr_quote s # concat (map (repr_char (repr_quote s)) s) @ [repr_quote s]"

fun join :: "string \<Rightarrow> string list \<Rightarrow> string" where
  "join sep [] = []"
| "join sep [x] = x"
| "join sep (x # y # ys) = x @ sep @ join sep (y # ys)"

fun py_repr :: "pyval \<Rightarrow> string" where
  "py_repr PNone = ''None''"
| "py_repr (PBool b) = (if b then ''True'' else ''False'')"
| "py_repr (PInt i) = str_int i"
| "py_repr (PStr s) = str_repr s"
| "py_repr (PList xs) = ''['' @ join '', '' (map py_repr xs) @ '']''"
| "py_repr (PDict kvs) =
     ''{'' @ join '', '' (map (\<lambda>kv. str_repr (fst kv) @ '': '' @ py_repr (snd kv)) kvs) @ ''}''"

fun py_str :: "pyval \<Rightarrow> string" where
  "py_str (PStr s) = s"
| "py_str v = py_repr v"

section \<open>Protocol messages\<close>

text \<open>
  The messages of \<^verbatim>\<open>connector_service_pb2\<close> that the harness builds. The generated module
  is not part of the sources; a message is modelled by its fields. \<^verbatim>\<open>WriteBatch\<close> receives
  exactly one of \<^verbatim>\<open>json_payload\<close> and \<^verbatim>\<open>stream_chunk_payload\<close>. The \<^verbatim>\<open>op_type\<close> of a \<^verbatim>\<open>RowOp\<close>
  is an integer field.
\<close>

datatype SinkPayloadFormat = JSON | STREAM_CHUNK

record TableSchema =
  columns :: "(string \<times> int) list"
  pk_indices :: "int list"

record SinkConfig =
  connector_type :: string
  properties :: "(string \<times> string) list"
  table_schema :: TableSchema

record RowOp =
  op_type :: int
  line :: string

datatype WriteBatch_payload =
    Json_payload "RowOp list"
  | Stream_chunk_payload bytes

datatype SinkStreamRequest =
    Start SinkPayloadFormat SinkConfig
  | Start_epoch int
  | Write WriteBatch_payload int int
  | Sync int

text \<open>The arguments of \<^verbatim>\<open>Write\<close> are the payload, \<^verbatim>\<open>batch_id\<close> and \<^verbatim>\<open>epoch\<close>, in this order.\<close>

definition make_mock_schema :: TableSchema where
  "make_mock_schema = \<lparr>columns = [(''id'', 2), (''name'', 7)], pk_indices = [0]\<rparr>"

definition make_mock_schema_stream_chunk :: TableSchema where
  "make_mock_schema_stream_chunk =
     \<lparr>columns = [(''v1'', 1), (''v2'', 2), (''v3'', 3), (''v4'', 4), (''v5'', 5), (''v6'', 6), (''v7'', 7)],
      pk_indices = [0]\<rparr>"

text \<open>
  Modelled from the spec: the check that the constructor of \<^verbatim>\<open>RowOp\<close>, a class of the
  generated module \<^verbatim>\<open>connector_service_pb2\<close> that is not in the sources, makes on its keyword
  argument \<^verbatim>\<open>op_type\<close>. The specification types the field as \<^verbatim>\<open>int\<close>: an integer of the
  32-bit signed range is stored, an integer outside it is refused, \<^verbatim>\<open>None\<close> leaves the field
  at its default 0, and every other value (a \<^verbatim>\<open>bool\<close>, a string, a list, a dict) is refused.
\<close>

definition int32_range :: "int \<Rightarrow> bool" where
  "int32_range n = (- (2 ^ 31) \<le> n \<and> n < 2 ^ 31)"

fun RowOp_op_type :: "pyval \<Rightarrow> pyerr + int" where
  "RowOp_op_type (PInt n) = (if int32_range n then Inr n else Inl ValueError)"
| "RowOp_op_type PNone = Inr 0"
| "RowOp_op_type (PStr s) = Inl ValueError"
| "RowOp_op_type v = Inl TypeError"

section \<open>Building the request list\<close>

text \<open>
  One \<^verbatim>\<open>RowOp\<close> of \<^verbatim>\<open>test_sink_json\<close>: the conditional expression for \<^verbatim>\<open>op_type\<close> is
  evaluated first, then \<^verbatim>\<open>str(row['line'])\<close>, then the constructor is called;
  \<^verbatim>\<open>row['op_type']\<close> is read only when \<^verbatim>\<open>op_overlap != False\<close> is false.
\<close>

definition sink_json_row_op :: "pyval \<Rightarrow> pyval \<Rightarrow> pyerr + RowOp" where
  "sink_json_row_op op_overlap row =
     (case (if py_ne op_overlap (PBool False) then Inr op_overlap else py_getitem row ''op_type'') of
        Inl e \<Rightarrow> Inl e
      | Inr opt \<Rightarrow>
          (case py_getitem row ''line'' of
             Inl e \<Rightarrow> Inl e
           | Inr l \<Rightarrow>
               (case RowOp_op_type opt of
                  Inl e \<Rightarrow> Inl e
                | Inr n \<Rightarrow> Inr \<lparr>op_type = n, line = py_str l\<rparr>)))"

text \<open>The inner loop \<^verbatim>\<open>for row in batch: row_ops.append(...)\<close>, with \<^verbatim>\<open>row_ops\<close> as accumulator.\<close>

fun sink_json_row_ops :: "pyval \<Rightarrow> pyval list \<Rightarrow> RowOp list \<Rightarrow> pyerr + RowOp list" where
  "sink_json_row_ops op_overlap [] row_ops = Inr row_ops"
| "sink_json_row_ops op_overlap (row # rows) row_ops =
     (case sink_json_row_op op_overlap row of
        Inl e \<Rightarrow> Inl e
      | Inr r \<Rightarrow> sink_json_row_ops op_overlap rows (row_ops @ [r]))"

text \<open>
  The outer loop \<^verbatim>\<open>for batch in sink_input\<close>; the state is \<^verbatim>\<open>epoch\<close>, \<^verbatim>\<open>batch_id\<close> and
  \<^verbatim>\<open>request_list\<close>. An exception leaves the function, so what was appended before it is lost.
\<close>

fun sink_json_batches ::
  "pyval \<Rightarrow> pyval list \<Rightarrow> int \<Rightarrow> int \<Rightarrow> SinkStreamRequest list \<Rightarrow> pyerr + SinkStreamRequest list" where
  "sink_json_batches op_overlap [] epoch batch_id request_list = Inr request_list"
| "sink_json_batches op_overlap (batch # batches) epoch batch_id request_list =
     (case py_iter batch of
        Inl e \<Rightarrow> Inl e
      | Inr rows \<Rightarrow>
          (case sink_json_row_ops op_overlap rows [] of
             Inl e \<Rightarrow> Inl e
           | Inr row_ops \<Rightarrow>
               sink_json_batches op_overlap batches (epoch + 1) (batch_id + 1)
                 (request_list @
                    [Start_epoch epoch, Write (Json_payload row_ops) batch_id epoch, Sync epoch])))"

text \<open>Lines 79 to 106 of \<^verbatim>\<open>test_sink_json\<close>: the request list built from the loaded fixture.\<close>

definition sink_json_request_list ::
  "string \<Rightarrow> (string \<times> string) list \<Rightarrow> pyval \<Rightarrow> pyval \<Rightarrow> pyerr + SinkStreamRequest list" where
  "sink_json_request_list type prop sink_input op_overlap =
     (case py_iter sink_input of
        Inl e \<Rightarrow> Inl e
      | Inr batches \<Rightarrow>
          sink_json_batches op_overlap batches 0 1
            [Start JSON \<lparr>connector_type = type, properties = prop, table_schema = make_mock_schema\<rparr>])"

text \<open>Lines 122 to 144 of \<^verbatim>\<open>test_sink_stream_chunk\<close>: no loop, one batch.\<close>

definition sink_stream_chunk_request_list ::
  "string \<Rightarrow> (string \<times> string) list \<Rightarrow> bytes \<Rightarrow> TableSchema \<Rightarrow> SinkStreamRequest list" where
  "sink_stream_chunk_request_list type prop sink_input schema =
     [Start STREAM_CHUNK \<lparr>connector_type = type, properties = prop, table_schema = schema\<rparr>,
      Start_epoch 0,
      Write (Stream_chunk_payload sink_input) 1 0,
      Sync 0]"

section \<open>The environment of a run\<close>

text \<open>
  What the harness reads from outside: the fixture files (the result of opening and
  parsing a path), the connector service behind \<^verbatim>\<open>stub.SinkStream\<close>, and the table
  \<^verbatim>\<open>test\<close> that \<^verbatim>\<open>validate_jdbc_sink\<close> selects from. The response iterator is a list of
  events, one for each \<^verbatim>\<open>next\<close>: a response, or an exception raised by the call. At the end
  of the list \<^verbatim>\<open>next\<close> raises \<^verbatim>\<open>StopIteration\<close>.
\<close>

datatype 'r event = Reply 'r | Raise pyerr

record 'r environment =
  json_files :: "string \<Rightarrow> pyerr + pyval"
  binary_files :: "string \<Rightarrow> pyerr + bytes"
  SinkStream :: "SinkStreamRequest list \<Rightarrow> 'r event list"
  database :: "pyerr + pyval list list"

text \<open>What is printed, in order.\<close>

datatype 'r printed =
    Print_request SinkStreamRequest
  | Print_response_ok 'r
  | Print_failed pyerr
  | Print_line string

definition load_input :: "'r environment \<Rightarrow> string \<Rightarrow> pyerr + pyval" where
  "load_input env input_file = json_files env input_file"

definition load_binary_input :: "'r environment \<Rightarrow> string \<Rightarrow> pyerr + bytes" where
  "load_binary_input env input_file = binary_files env input_file"

section \<open>The stream driver\<close>

text \<open>
  The loop \<^verbatim>\<open>for req in request_list\<close> of lines 109 to 115 (and 147 to 153): it prints the
  request, advances the response iterator once and prints the response; any exception is
  caught, reported, and \<^verbatim>\<open>exit(1)\<close> ends the process.
\<close>

fun drain_responses ::
  "SinkStreamRequest list \<Rightarrow> 'r event list \<Rightarrow> 'r printed list \<Rightarrow> outcome \<times> 'r printed list" where
  "drain_responses [] response_iter out = (Returned, out)"
| "drain_responses (req # reqs) [] out =
     (Exited 1, out @ [Print_request req, Print_failed StopIteration])"
| "drain_responses (req # reqs) (Raise e # response_iter) out =
     (Exited 1, out @ [Print_request req, Print_failed e])"
| "drain_responses (req # reqs) (Reply r # response_iter) out =
     drain_responses reqs response_iter (out @ [Print_request req, Print_response_ok r])"

definition test_sink_json ::
  "'r environment \<Rightarrow> string \<Rightarrow> (string \<times> string) list \<Rightarrow> string \<Rightarrow> pyval
     \<Rightarrow> outcome \<times> 'r printed list" where
  "test_sink_json env type prop input_file op_overlap =
     (case load_input env input_file of
        Inl e \<Rightarrow> (Raised e, [])
      | Inr sink_input \<Rightarrow>
          (case sink_json_request_list type prop sink_input op_overlap of
             Inl e \<Rightarrow> (Raised e, [])
           | Inr request_list \<Rightarrow>
               drain_responses request_list (SinkStream env request_list) []))"

definition test_sink_stream_chunk ::
  "'r environment \<Rightarrow> string \<Rightarrow> (string \<times> string) list \<Rightarrow> string \<Rightarrow> TableSchema
     \<Rightarrow> outcome \<times> 'r printed list" where
  "test_sink_stream_chunk env type prop input_file schema =
     (case load_binary_input env input_file of
        Inl e \<Rightarrow> (Raised e, [])
      | Inr sink_input \<Rightarrow>
          drain_responses (sink_stream_chunk_request_list type prop sink_input schema)
            (SinkStream env (sink_stream_chunk_request_list type prop sink_input schema)) [])"

section \<open>The result validator\<close>

text \<open>A list comprehension whose element expression may raise: the first exception wins.\<close>

fun comprehension :: "('a \<Rightarrow> pyerr + 'b) \<Rightarrow> 'a list \<Rightarrow> pyerr + 'b list" where
  "comprehension f [] = Inr []"
| "comprehension f (x # xs) =
     (case f x of
        Inl e \<Rightarrow> Inl e
      | Inr y \<Rightarrow> (case comprehension f xs of Inl e \<Rightarrow> Inl e | Inr ys \<Rightarrow> Inr (y # ys)))"

text \<open>\<^verbatim>\<open>[list(row.values()) for batch in load_input(input_file) for row in batch]\<close>\<close>

definition batch_values :: "pyval \<Rightarrow> pyerr + pyval list list" where
  "batch_values batch =
     (case py_iter batch of Inl e \<Rightarrow> Inl e | Inr rows \<Rightarrow> comprehension py_values rows)"

definition fixture_values :: "pyval \<Rightarrow> pyerr + pyval list list" where
  "fixture_values sink_input =
     (case py_iter sink_input of
        Inl e \<Rightarrow> Inl e
      | Inr batches \<Rightarrow>
          (case comprehension batch_values batches of
             Inl e \<Rightarrow> Inl e
           | Inr vss \<Rightarrow> Inr (concat vss)))"

text \<open>\<^verbatim>\<open>(item[1]['id'], item[1]['name'])\<close> of \<^verbatim>\<open>convert\<close>: the second value of the row.\<close>

definition convert_item :: "pyval list \<Rightarrow> pyerr + pyval \<times> pyval" where
  "convert_item item =
     (if length item \<le> 1 then Inl IndexError
      else (case py_getitem (item ! 1) ''id'' of
              Inl e \<Rightarrow> Inl e
            | Inr a \<Rightarrow>
                (case py_getitem (item ! 1) ''name'' of
                   Inl e \<Rightarrow> Inl e
                 | Inr b \<Rightarrow> Inr (a, b))))"

definition convert :: "pyval list list \<Rightarrow> pyerr + (pyval \<times> pyval) list" where
  "convert b = comprehension convert_item b"

text \<open>Lines 162 to 167: the expected rows of a loaded fixture.\<close>

definition expected_rows :: "pyval \<Rightarrow> pyerr + (pyval \<times> pyval) list" where
  "expected_rows sink_input =
     (case fixture_values sink_input of Inl e \<Rightarrow> Inl e | Inr expected \<Rightarrow> convert expected)"

text \<open>The items of an expected tuple; its length is always 2.\<close>

fun tuple_items :: "pyval \<times> pyval \<Rightarrow> pyval list" where
  "tuple_items (a, b) = [a, b]"

definition rows_message :: "nat \<Rightarrow> nat \<Rightarrow> string" where
  "rows_message n_expected n_rows =
     ''Integration test failed: expected '' @ str_nat n_expected @ '' rows, but got '' @ str_nat n_rows"

definition columns_message :: "nat \<Rightarrow> nat \<Rightarrow> string" where
  "columns_message n_expected n_row =
     ''Integration test failed: expected '' @ str_nat n_expected @ '' columns, but got '' @ str_nat n_row"

definition value_message :: "pyval \<Rightarrow> nat \<Rightarrow> nat \<Rightarrow> pyval \<Rightarrow> string" where
  "value_message e i j r =
     ''Integration test failed: expected '' @ py_str e @ '' at row '' @ str_nat i @
     '', column '' @ str_nat j @ '', but got '' @ py_str r"

text \<open>
  The loop \<^verbatim>\<open>for j in range(len(rows[i]))\<close> over the indices still to visit; the result is
  the message printed before \<^verbatim>\<open>exit(1)\<close>, if any.
\<close>

fun compare_columns :: "nat list \<Rightarrow> nat \<Rightarrow> pyval list \<Rightarrow> pyval list \<Rightarrow> string option" where
  "compare_columns [] i row expected_row = None"
| "compare_columns (j # js) i row expected_row =
     (if py_ne (row ! j) (expected_row ! j)
      then Some (value_message (expected_row ! j) i j (row ! j))
      else compare_columns js i row expected_row)"

text \<open>The loop \<^verbatim>\<open>for i in range(len(rows))\<close>.\<close>

fun compare_rows :: "nat list \<Rightarrow> pyval list list \<Rightarrow> (pyval \<times> pyval) list \<Rightarrow> string option" where
  "compare_rows [] rows expected = None"
| "compare_rows (i # is) rows expected =
     (if length (rows ! i) \<noteq> length (tuple_items (expected ! i))
      then Some (columns_message (length (tuple_items (expected ! i))) (length (rows ! i)))
      else (case compare_columns [0..<length (rows ! i)] i (rows ! i) (tuple_items (expected ! i)) of
              Some m \<Rightarrow> Some m
            | None \<Rightarrow> compare_rows is rows expected))"

text \<open>Lines 169 to 183. The indices stay in range: the lengths are compared first.\<close>

definition compare_with_expected ::
  "pyval list list \<Rightarrow> (pyval \<times> pyval) list \<Rightarrow> outcome \<times> 'r printed list" where
  "compare_with_expected rows expected =
     (if length rows \<noteq> length expected
      then (Exited 1, [Print_line (rows_message (length expected) (length rows))])
      else (case compare_rows [0..<length rows] rows expected of
              Some m \<Rightarrow> (Exited 1, [Print_line m])
            | None \<Rightarrow> (Returned, [])))"

definition validate_expected :: "'r environment \<Rightarrow> string \<Rightarrow> pyerr + (pyval \<times> pyval) list" where
  "validate_expected env input_file =
     (case load_input env input_file of Inl e \<Rightarrow> Inl e | Inr sink_input \<Rightarrow> expected_rows sink_input)"

definition validate_jdbc_sink :: "'r environment \<Rightarrow> string \<Rightarrow> outcome \<times> 'r printed list" where
  "validate_jdbc_sink env input_file =
     (case database env of
        Inl e \<Rightarrow> (Raised e, [])
      | Inr rows \<Rightarrow>
          (case validate_expected env input_file of
             Inl e \<Rightarrow> (Raised e, [])
           | Inr expected \<Rightarrow> compare_with_expected rows expected))"

section \<open>Scenarios\<close>

text \<open>One call after another: the second runs only when the first returned.\<close>

definition and_then ::
  "outcome \<times> 'r printed list \<Rightarrow> outcome \<times> 'r printed list \<Rightarrow> outcome \<times> 'r printed list" where
  "and_then first second =
     (case fst first of
        Returned \<Rightarrow> (fst second, snd first @ snd second)
      | _ \<Rightarrow> first)"

definition jdbc_prop :: "(string \<times> string) list" where
  "jdbc_prop =
     [(''jdbc.url'', ''jdbc:postgresql://localhost:5432/test?user=test&password=connector''),
      (''table.name'', ''test'')]"

definition test_jdbc_sink ::
  "'r environment \<Rightarrow> string \<Rightarrow> string \<Rightarrow> bool \<Rightarrow> outcome \<times> 'r printed list" where
  "test_jdbc_sink env input_file input_binary_file use_json =
     and_then
       (if use_json then test_sink_json env ''jdbc'' jdbc_prop input_file (PInt 1)
        else test_sink_stream_chunk env ''jdbc'' jdbc_prop input_binary_file make_mock_schema)
       (validate_jdbc_sink env input_file)"

definition iceberg_upsert_prop :: "(string \<times> string) list" where
  "iceberg_upsert_prop =
     [(''type'', ''upsert''),
      (''warehouse.path'', ''s3a://bucket''),
      (''s3.endpoint'', ''http://127.0.0.1:9000''),
      (''s3.access.key'', ''minioadmin''),
      (''s3.secret.key'', ''minioadmin''),
      (''database.name'', ''demo_db''),
      (''table.name'', ''demo_table'')]"

text \<open>\<^verbatim>\<open>test_upsert_iceberg_sink\<close> leaves \<^verbatim>\<open>op_overlap\<close> at its default \<^verbatim>\<open>False\<close>.\<close>

definition test_upsert_iceberg_sink ::
  "'r environment \<Rightarrow> string \<Rightarrow> bool \<Rightarrow> outcome \<times> 'r printed list" where
  "test_upsert_iceberg_sink env file_name use_json =
     (if use_json then test_sink_json env ''iceberg'' iceberg_upsert_prop file_name (PBool False)
      else test_sink_stream_chunk env ''iceberg'' iceberg_upsert_prop file_name make_mock_schema)"

section \<open>Descriptions used by the properties\<close>

text \<open>
  A JSON fixture as the harness expects it: a sequence of batches, each batch a sequence
  of row objects that have at least \<^verbatim>\<open>op_type\<close>, an integer of the 32-bit signed range, and
  \<^verbatim>\<open>line\<close>.
\<close>

fun is_op_type :: "pyval \<Rightarrow> bool" where
  "is_op_type (PInt n) = int32_range n"
| "is_op_type _ = False"

fun is_row :: "pyval \<Rightarrow> bool" where
  "is_row (PDict kvs) =
     ((case map_of kvs ''op_type'' of None \<Rightarrow> False | Some v \<Rightarrow> is_op_type v) \<and>
      map_of kvs ''line'' \<noteq> None)"
| "is_row _ = False"

fun is_batch :: "pyval \<Rightarrow> bool" where
  "is_batch (PList rows) = list_all is_row rows"
| "is_batch _ = False"

fun valid_json_fixture :: "pyval \<Rightarrow> bool" where
  "valid_json_fixture (PList batches) = list_all is_batch batches"
| "valid_json_fixture _ = False"

text \<open>
  The values of \<^verbatim>\<open>op_overlap\<close> with which a valid fixture builds a request list: those equal
  to \<^verbatim>\<open>False\<close>, which leave each row its own \<^verbatim>\<open>op_type\<close>, and those the constructor of
  \<^verbatim>\<open>RowOp\<close> accepts.
\<close>

definition op_overlap_accepted :: "pyval \<Rightarrow> bool" where
  "op_overlap_accepted op_overlap =
     (\<not> py_ne op_overlap (PBool False) \<or>
      (case RowOp_op_type op_overlap of Inl e \<Rightarrow> False | Inr n \<Rightarrow> True))"

text \<open>The row operations of one batch, as a comprehension over its rows.\<close>

definition batch_row_ops :: "pyval \<Rightarrow> pyval \<Rightarrow> pyerr + RowOp list" where
  "batch_row_ops op_overlap batch =
     (case py_iter batch of
        Inl e \<Rightarrow> Inl e
      | Inr rows \<Rightarrow> comprehension (sink_json_row_op op_overlap) rows)"

text \<open>
  The session as the specification describes it: for the payloads in order, the triple
  \<^verbatim>\<open>StartEpoch(e)\<close>, \<^verbatim>\<open>Write(batch_id = e + 1, epoch = e)\<close>, \<^verbatim>\<open>Sync(e)\<close>, with \<^verbatim>\<open>e\<close> counting up.
\<close>

fun session_triples :: "int \<Rightarrow> RowOp list list \<Rightarrow> SinkStreamRequest list" where
  "session_triples e [] = []"
| "session_triples e (ops # rest) =
     [Start_epoch e, Write (Json_payload ops) (e + 1) e, Sync e] @ session_triples (e + 1) rest"

text \<open>The JSON payloads of the \<^verbatim>\<open>Write\<close> messages of a request list, in order.\<close>

fun json_payloads :: "SinkStreamRequest list \<Rightarrow> RowOp list list" where
  "json_payloads [] = []"
| "json_payloads (Write (Json_payload ops) b e # reqs) = ops # json_payloads reqs"
| "json_payloads (req # reqs) = json_payloads reqs"

text \<open>A fixture of two batches, of two rows and of one row.\<close>

definition fixture_two_batches :: pyval where
  "fixture_two_batches =
     PList [PList [PDict [(''op_type'', PInt 1), (''line'', PDict [(''id'', PInt 1), (''name'', PStr ''a'')])],
                   PDict [(''op_type'', PInt 2), (''line'', PDict [(''id'', PInt 2), (''name'', PStr ''b'')])]],
            PList [PDict [(''op_type'', PInt 1), (''line'', PStr ''c'')]]]"

text \<open>
  The payload kind of a \<^verbatim>\<open>Write\<close>, the format tag of the \<^verbatim>\<open>Start\<close> message that opens a
  session, and the agreement of the two: every \<^verbatim>\<open>Write\<close> after the \<^verbatim>\<open>Start\<close> carries the
  payload kind of the tag.
\<close>

fun payload_format :: "WriteBatch_payload \<Rightarrow> SinkPayloadFormat" where
  "payload_format (Json_payload ops) = JSON"
| "payload_format (Stream_chunk_payload d) = STREAM_CHUNK"

fun write_has_format :: "SinkPayloadFormat \<Rightarrow> SinkStreamRequest \<Rightarrow> bool" where
  "write_has_format fmt (Write p b e) = (payload_format p = fmt)"
| "write_has_format fmt req = True"

fun session_format :: "SinkStreamRequest list \<Rightarrow> SinkPayloadFormat option" where
  "session_format (Start fmt cfg # reqs) = Some fmt"
| "session_format reqs = None"

fun format_consistent :: "SinkStreamRequest list \<Rightarrow> bool" where
  "format_consistent (Start fmt cfg # reqs) = list_all (write_has_format fmt) reqs"
| "format_consistent reqs = False"

text \<open>The binary payloads of the \<^verbatim>\<open>Write\<close> messages of a request list, in order.\<close>

fun stream_chunk_payloads :: "SinkStreamRequest list \<Rightarrow> bytes list" where
  "stream_chunk_payloads [] = []"
| "stream_chunk_payloads (Write (Stream_chunk_payload d) b e # reqs) = d # stream_chunk_payloads reqs"
| "stream_chunk_payloads (req # reqs) = stream_chunk_payloads reqs"

text \<open>A fixture of one row whose own \<^verbatim>\<open>op_type\<close> is 2.\<close>

definition fixture_delete_row :: pyval where
  "fixture_delete_row = PList [PList [PDict [(''op_type'', PInt 2), (''line'', PStr ''x'')]]]"

text \<open>
  What the response iterator yields before its first failure, and the exception of that
  failure: the one raised, or \<^verbatim>\<open>StopIteration\<close> when the responses run out.
\<close>

fun replies :: "'r event list \<Rightarrow> 'r list" where
  "replies (Reply r # evs) = r # replies evs"
| "replies evs = []"

fun first_failure :: "'r event list \<Rightarrow> pyerr" where
  "first_failure [] = StopIteration"
| "first_failure (Raise e # evs) = e"
| "first_failure (Reply r # evs) = first_failure evs"

text \<open>A binary fixture of 37 bytes, and a service that answers twice and then fails.\<close>

definition fixture_37_bytes :: bytes where
  "fixture_37_bytes = replicate 37 0x2A"

definition failing_service :: "nat environment" where
  "failing_service =
     \<lparr>json_files = (\<lambda>path. if path = ''sink_input.json'' then Inr fixture_two_batches else Inl OSError),
      binary_files = (\<lambda>path. if path = ''sink_input'' then Inr fixture_37_bytes else Inl OSError),
      SinkStream = (\<lambda>reqs. [Reply 0, Reply 1, Raise (RpcError ''unavailable''), Reply 3]),
      database = Inr []\<rparr>"

text \<open>A stored row agrees with an expected tuple: two columns, each equal under \<^verbatim>\<open>==\<close>.\<close>

definition row_matches :: "pyval list \<Rightarrow> pyval \<times> pyval \<Rightarrow> bool" where
  "row_matches row e =
     (length row = 2 \<and> \<not> py_ne (row ! 0) (fst e) \<and> \<not> py_ne (row ! 1) (snd e))"




text \<open>The tuple that \<^verbatim>\<open>validate_jdbc_sink\<close> derives from one fixture row.\<close>

definition row_tuple :: "pyval \<Rightarrow> pyerr + pyval \<times> pyval" where
  "row_tuple row = (case py_values row of Inl e \<Rightarrow> Inl e | Inr item \<Rightarrow> convert_item item)"

text \<open>
  The fixtures the validator can read: the rows are objects whose second member is an
  object with the members \<^verbatim>\<open>id\<close> and \<^verbatim>\<open>name\<close>.
\<close>

fun is_jdbc_line :: "pyval \<Rightarrow> bool" where
  "is_jdbc_line (PDict kvs) = (map_of kvs ''id'' \<noteq> None \<and> map_of kvs ''name'' \<noteq> None)"
| "is_jdbc_line _ = False"

fun is_jdbc_row :: "pyval \<Rightarrow> bool" where
  "is_jdbc_row (PDict kvs) = (1 < length kvs \<and> is_jdbc_line (snd (kvs ! 1)))"
| "is_jdbc_row _ = False"

fun is_jdbc_batch :: "pyval \<Rightarrow> bool" where
  "is_jdbc_batch (PList rows) = list_all is_jdbc_row rows"
| "is_jdbc_batch _ = False"

fun jdbc_fixture :: "pyval \<Rightarrow> bool" where
  "jdbc_fixture (PList batches) = list_all is_jdbc_batch batches"
| "jdbc_fixture _ = False"

text \<open>
  A fixture of one row whose line is the string \<^verbatim>\<open>{"id":1,"name":"a"}\<close>, and a fixture of
  two batches whose lines are objects.
\<close>

definition fixture_string_line :: pyval where
  "fixture_string_line =
     PList [PList [PDict [(''op_type'', PInt 1),
                          (''line'', PStr (''{'' @ [CHR 0x22] @ ''id'' @ [CHR 0x22] @ '':1,'' @
                                          [CHR 0x22] @ ''name'' @ [CHR 0x22] @ '':'' @
                                          [CHR 0x22] @ ''a'' @ [CHR 0x22] @ ''}''))]]]"

definition fixture_object_lines :: pyval where
  "fixture_object_lines =
     PList [PList [PDict [(''op_type'', PInt 1), (''line'', PDict [(''id'', PInt 1), (''name'', PStr ''a'')])],
                   PDict [(''op_type'', PInt 2), (''line'', PDict [(''id'', PInt 2), (''name'', PStr ''b'')])]],
            PList [PDict [(''op_type'', PInt 1), (''line'', PDict [(''id'', PInt 3), (''name'', PStr ''c'')])]]]"

definition jdbc_store :: "nat environment" where
  "jdbc_store =
     \<lparr>json_files = (\<lambda>path. if path = ''sink_input.json'' then Inr fixture_object_lines else Inl OSError),
      binary_files = (\<lambda>path. if path = ''sink_input'' then Inr fixture_37_bytes else Inl OSError),
      SinkStream = (\<lambda>reqs. map (\<lambda>req. Reply 0) reqs),
      database = Inr [[PInt 1, PStr ''a''], [PInt 2, PStr ''b''], [PInt 3, PStr ''c'']]\<rparr>"

section \<open>Properties\<close>

subsection \<open>Comprehensions and the request builder\<close>

lemmas str_simps =
  str_repr_def repr_quote_def repr_char_def hex_escape_def str_int_def digit_char_def str_nat.simps

lemma comprehension_Inr_D:
  "comprehension f xs = Inr ys \<Longrightarrow> list_all2 (\<lambda>x y. f x = Inr y) xs ys"
  by (induction xs arbitrary: ys) (auto split: sum.splits)

lemma comprehension_Inr_I:
  "list_all2 (\<lambda>x y. f x = Inr y) xs ys \<Longrightarrow> comprehension f xs = Inr ys"
  by (induction xs ys rule: list_all2_induct) auto

lemma comprehension_Inr_iff:
  "comprehension f xs = Inr ys \<longleftrightarrow> list_all2 (\<lambda>x y. f x = Inr y) xs ys"
  using comprehension_Inr_D comprehension_Inr_I by blast

lemma sink_json_row_ops_eq:
  "sink_json_row_ops ov rows acc =
     (case comprehension (sink_json_row_op ov) rows of Inl e \<Rightarrow> Inl e | Inr rs \<Rightarrow> Inr (acc @ rs))"
  by (induction rows arbitrary: acc) (auto split: sum.splits)

lemma sink_json_batches_eq:
  "sink_json_batches ov bs e (e + 1) rl =
     (case comprehension (batch_row_ops ov) bs of
        Inl err \<Rightarrow> Inl err
      | Inr pls \<Rightarrow> Inr (rl @ session_triples e pls))"
proof (induction bs arbitrary: e rl)
  case Nil
  show ?case by simp
next
  case (Cons b bs)
  show ?case
    using Cons.IH [of "e + 1"]
    by (auto simp: batch_row_ops_def sink_json_row_ops_eq split: sum.splits)
qed

lemma sink_json_request_list_eq:
  "sink_json_request_list type prop fx ov =
     (case py_iter fx of
        Inl e \<Rightarrow> Inl e
      | Inr batches \<Rightarrow>
          (case comprehension (batch_row_ops ov) batches of
             Inl e \<Rightarrow> Inl e
           | Inr pls \<Rightarrow>
               Inr (Start JSON \<lparr>connector_type = type, properties = prop, table_schema = make_mock_schema\<rparr>
                    # session_triples 0 pls)))"
  using sink_json_batches_eq [of ov _ 0]
  by (simp add: sink_json_request_list_def split: sum.splits)



lemma comprehension_total:
  "(\<And>x. x \<in> set xs \<Longrightarrow> \<exists>y. f x = Inr y) \<Longrightarrow> \<exists>ys. comprehension f xs = Inr ys"
proof (induction xs)
  case Nil
  show ?case by simp
next
  case (Cons x xs)
  from Cons.prems obtain y where y: "f x = Inr y" by auto
  from Cons obtain ys where "comprehension f xs = Inr ys" by auto
  with y show ?case by simp
qed

lemma is_op_type_accepted: "is_op_type v \<Longrightarrow> \<exists>n. v = PInt n \<and> RowOp_op_type v = Inr n"
  by (cases v) simp_all

lemma is_row_row_op:
  assumes "is_row row" "op_overlap_accepted ov"
  shows "\<exists>r. sink_json_row_op ov row = Inr r"
proof (cases row)
  case (PDict kvs)
  with assms(1) obtain v l where v: "map_of kvs ''op_type'' = Some v" "is_op_type v"
    and l: "map_of kvs ''line'' = Some l"
    by (auto split: option.splits)
  from v(2) obtain n where n: "RowOp_op_type v = Inr n"
    by (blast dest: is_op_type_accepted)
  show ?thesis
  proof (cases "py_ne ov (PBool False)")
    case True
    with assms(2) obtain m where "RowOp_op_type ov = Inr m"
      by (auto simp: op_overlap_accepted_def split: sum.splits)
    with True PDict l show ?thesis
      by (simp add: sink_json_row_op_def)
  next
    case False
    with PDict v l n show ?thesis
      by (simp add: sink_json_row_op_def)
  qed
qed (use assms in simp_all)

lemma is_batch_row_ops:
  assumes "is_batch b" "op_overlap_accepted ov"
  shows "\<exists>ops. batch_row_ops ov b = Inr ops"
proof (cases b)
  case (PList rows)
  with assms have "\<And>row. row \<in> set rows \<Longrightarrow> \<exists>r. sink_json_row_op ov row = Inr r"
    by (simp add: list_all_iff is_row_row_op)
  from comprehension_total [of rows "sink_json_row_op ov", OF this] PList
  show ?thesis by (simp add: batch_row_ops_def)
qed (use assms in simp_all)

lemma valid_fixture_payloads:
  assumes "valid_json_fixture fx" "op_overlap_accepted ov"
  shows "\<exists>batches pls. fx = PList batches \<and> comprehension (batch_row_ops ov) batches = Inr pls"
proof (cases fx)
  case (PList batches)
  with assms have "\<And>b. b \<in> set batches \<Longrightarrow> \<exists>ops. batch_row_ops ov b = Inr ops"
    by (simp add: list_all_iff is_batch_row_ops)
  from comprehension_total [of batches "batch_row_ops ov", OF this] PList
  show ?thesis by simp
qed (use assms in simp_all)

lemma op_overlap_accepted_int: "int32_range n \<Longrightarrow> op_overlap_accepted (PInt n)"
  by (simp add: op_overlap_accepted_def)


lemma int32_range_small: "int32_range 0" "int32_range 1" "int32_range 2"
  by (simp_all add: int32_range_def)




subsection \<open>The override of \<^verbatim>\<open>op_type\<close>\<close>

lemma list_all2_setD2: "list_all2 P xs ys \<Longrightarrow> y \<in> set ys \<Longrightarrow> \<exists>x \<in> set xs. P x y"
  by (induction rule: list_all2_induct) auto

lemma json_payloads_triples: "json_payloads (session_triples e pls) = pls"
  by (induction pls arbitrary: e) auto

lemma sink_json_request_list_Inr:
  assumes "sink_json_request_list type prop fx ov = Inr reqs"
  shows "\<exists>batches pls.
           py_iter fx = Inr batches \<and> comprehension (batch_row_ops ov) batches = Inr pls \<and>
           reqs = Start JSON \<lparr>connector_type = type, properties = prop, table_schema = make_mock_schema\<rparr>
                  # session_triples 0 pls"
  using assms by (auto simp: sink_json_request_list_eq split: sum.splits)

lemma sink_json_payloads:
  assumes "sink_json_request_list type prop fx ov = Inr reqs"
  shows "\<exists>batches. py_iter fx = Inr batches \<and>
           list_all2 (\<lambda>batch ops. \<exists>rows. py_iter batch = Inr rows \<and>
                        list_all2 (\<lambda>row r. sink_json_row_op ov row = Inr r) rows ops)
             batches (json_payloads reqs)"
proof -
  from sink_json_request_list_Inr [OF assms] obtain batches pls
    where b: "py_iter fx = Inr batches"
      and c: "comprehension (batch_row_ops ov) batches = Inr pls"
      and r: "reqs = Start JSON \<lparr>connector_type = type, properties = prop, table_schema = make_mock_schema\<rparr>
                  # session_triples 0 pls"
    by blast
  have p: "json_payloads reqs = pls"
    by (simp add: r json_payloads_triples)
  have "list_all2 (\<lambda>batch ops. batch_row_ops ov batch = Inr ops) batches pls"
    using c by (rule comprehension_Inr_D)
  then have "list_all2 (\<lambda>batch ops. \<exists>rows. py_iter batch = Inr rows \<and>
                        list_all2 (\<lambda>row r. sink_json_row_op ov row = Inr r) rows ops) batches pls"
    by (rule list_all2_mono) (auto simp: batch_row_ops_def comprehension_Inr_iff split: sum.splits)
  with b p show ?thesis by auto
qed

lemma valid_fixture_returns:
  "valid_json_fixture fx \<Longrightarrow> op_overlap_accepted ov \<Longrightarrow>
   \<exists>reqs. sink_json_request_list type prop fx ov = Inr reqs"
  using valid_fixture_payloads [of fx ov] by (auto simp: sink_json_request_list_eq)

text \<open>
  The rows and the row operations of a built session, batch by batch: every row has its
  \<^verbatim>\<open>RowOp\<close>, in the order of the rows, and the two are related by \<open>P\<close> whenever \<open>P\<close> follows
  from the construction of one \<^verbatim>\<open>RowOp\<close>.
\<close>

lemma valid_fixture_rows:
  assumes v: "valid_json_fixture fx" and a: "op_overlap_accepted ov"
    and P: "\<And>row r. is_row row \<Longrightarrow> sink_json_row_op ov row = Inr r \<Longrightarrow> P row r"
  shows "\<exists>reqs batches.
           sink_json_request_list type prop fx ov = Inr reqs \<and> fx = PList batches \<and>
           list_all2 (\<lambda>batch ops. \<exists>rows. batch = PList rows \<and> list_all2 P rows ops)
             batches (json_payloads reqs)"
proof -
  from valid_fixture_returns [OF v a] obtain reqs
    where r: "sink_json_request_list type prop fx ov = Inr reqs"
    by blast
  from v obtain batches where fx: "fx = PList batches"
    by (cases fx) simp_all
  from v fx have vb: "\<forall>b \<in> set batches. is_batch b"
    by (simp add: list_all_iff)
  from sink_json_payloads [OF r] fx
  have p: "list_all2 (\<lambda>batch ops. \<exists>rows. py_iter batch = Inr rows \<and>
                list_all2 (\<lambda>row r. sink_json_row_op ov row = Inr r) rows ops)
                batches (json_payloads reqs)"
    by simp
  have "list_all2 (\<lambda>batch ops. \<exists>rows. batch = PList rows \<and> list_all2 P rows ops)
          batches (json_payloads reqs)"
  proof (rule list_all2_all_nthI)
    show "length batches = length (json_payloads reqs)"
      using p by (rule list_all2_lengthD)
  next
    fix i
    assume i: "i < length batches"
    with p obtain rows where it: "py_iter (batches ! i) = Inr rows"
      and l: "list_all2 (\<lambda>row r. sink_json_row_op ov row = Inr r) rows (json_payloads reqs ! i)"
      by (auto simp: list_all2_conv_all_nth)
    from vb i have ib: "is_batch (batches ! i)" by simp
    with it have b: "batches ! i = PList rows"
      by (cases "batches ! i") simp_all
    with ib have ir: "\<forall>row \<in> set rows. is_row row"
      by (simp add: list_all_iff)
    have "list_all2 P rows (json_payloads reqs ! i)"
    proof (rule list_all2_all_nthI)
      show "length rows = length (json_payloads reqs ! i)"
        using l by (rule list_all2_lengthD)
    next
      fix k
      assume k: "k < length rows"
      with l have "sink_json_row_op ov (rows ! k) = Inr (json_payloads reqs ! i ! k)"
        by (simp add: list_all2_conv_all_nth)
      moreover from ir k have "is_row (rows ! k)" by simp
      ultimately show "P (rows ! k) (json_payloads reqs ! i ! k)"
        by (rule P [rotated])
    qed
    with b show "\<exists>rows. batches ! i = PList rows \<and> list_all2 P rows (json_payloads reqs ! i)"
      by blast
  qed
  with r fx show ?thesis by blast
qed

lemma row_op_override:
  "sink_json_row_op (PInt n) row = Inr r \<Longrightarrow> n \<noteq> 0 \<Longrightarrow> op_type r = n"
  by (auto simp: sink_json_row_op_def py_ne_def split: sum.splits if_splits)


lemma row_op_line:
  "sink_json_row_op ov row = Inr r \<Longrightarrow> \<exists>l. py_getitem row ''line'' = Inr l \<and> line r = py_str l"
  by (auto simp: sink_json_row_op_def split: sum.splits if_splits)


lemma sink_json_delete_row_default:
  "sink_json_request_list type prop fixture_delete_row (PBool False) =
     Inr [Start JSON \<lparr>connector_type = type, properties = prop, table_schema = make_mock_schema\<rparr>,
          Start_epoch 0,
          Write (Json_payload [\<lparr>op_type = 2, line = ''x''\<rparr>]) 1 0,
          Sync 0]"
  by (simp add: sink_json_request_list_def fixture_delete_row_def sink_json_row_op_def py_ne_def
      int32_range_def)


lemma sink_json_delete_row_one:
  "sink_json_request_list type prop fixture_delete_row (PInt 1) =
     Inr [Start JSON \<lparr>connector_type = type, properties = prop, table_schema = make_mock_schema\<rparr>,
          Start_epoch 0,
          Write (Json_payload [\<lparr>op_type = 1, line = ''x''\<rparr>]) 1 0,
          Sync 0]"
  by (simp add: sink_json_request_list_def fixture_delete_row_def sink_json_row_op_def py_ne_def
      int32_range_def)

lemma sink_json_delete_row_None:
  "sink_json_request_list type prop fixture_delete_row PNone =
     Inr [Start JSON \<lparr>connector_type = type, properties = prop, table_schema = make_mock_schema\<rparr>,
          Start_epoch 0,
          Write (Json_payload [\<lparr>op_type = 0, line = ''x''\<rparr>]) 1 0,
          Sync 0]"
  by (simp add: sink_json_request_list_def fixture_delete_row_def sink_json_row_op_def py_ne_def)

lemma valid_fixture_delete_row: "valid_json_fixture fixture_delete_row"
  by (simp add: fixture_delete_row_def int32_range_def)




text \<open>
  C3, as stated, fails at the default \<^verbatim>\<open>op_overlap = False\<close>, the value
  \<^verbatim>\<open>test_upsert_iceberg_sink\<close> runs with: a row whose own \<^verbatim>\<open>op_type\<close> is 2 is emitted with
  \<^verbatim>\<open>op_type\<close> 2, which is not the value of \<^verbatim>\<open>op_overlap\<close>. It fails at \<^verbatim>\<open>op_overlap = None\<close>
  too, where the emitted \<^verbatim>\<open>op_type\<close> is 0.
\<close>

theorem sink_json_op_override_counterexample:
  "sink_json_request_list ''iceberg'' iceberg_upsert_prop fixture_delete_row (PBool False) =
     Inr [Start JSON \<lparr>connector_type = ''iceberg'', properties = iceberg_upsert_prop,
                      table_schema = make_mock_schema\<rparr>,
          Start_epoch 0,
          Write (Json_payload [\<lparr>op_type = 2, line = ''x''\<rparr>]) 1 0,
          Sync 0] \<and>
   py_ne (PInt (op_type \<lparr>op_type = 2, line = ''x''\<rparr>)) (PBool False) \<and>
   sink_json_request_list ''iceberg'' iceberg_upsert_prop fixture_delete_row PNone =
     Inr [Start JSON \<lparr>connector_type = ''iceberg'', properties = iceberg_upsert_prop,
                      table_schema = make_mock_schema\<rparr>,
          Start_epoch 0,
          Write (Json_payload [\<lparr>op_type = 0, line = ''x''\<rparr>]) 1 0,
          Sync 0] \<and>
   py_ne (PInt (op_type \<lparr>op_type = 0, line = ''x''\<rparr>)) PNone"
  by (simp add: sink_json_delete_row_default sink_json_delete_row_None py_ne_def)

text \<open>
  C3, amended: for every JSON fixture and every \<^verbatim>\<open>op_overlap\<close> that is an integer of the
  32-bit signed range other than 0, every emitted \<^verbatim>\<open>RowOp\<close> has \<^verbatim>\<open>op_type\<close> equal to
  \<^verbatim>\<open>op_overlap\<close>, whatever the \<^verbatim>\<open>op_type\<close> field of the source row is; and when the fixture
  is valid, a request list is built in which every batch has one \<^verbatim>\<open>RowOp\<close> for each of its
  rows.
\<close>

theorem sink_json_op_override:
  assumes "int32_range n" "n \<noteq> 0"
  shows "(valid_json_fixture sink_input \<longrightarrow>
            (\<exists>reqs batches.
               sink_json_request_list type prop sink_input (PInt n) = Inr reqs \<and>
               sink_input = PList batches \<and>
               list_all2 (\<lambda>batch ops. \<exists>rows. batch = PList rows \<and> length ops = length rows \<and>
                            (\<forall>r \<in> set ops. op_type r = n))
                 batches (json_payloads reqs))) \<and>
         (\<forall>reqs. sink_json_request_list type prop sink_input (PInt n) = Inr reqs \<longrightarrow>
            (\<forall>ops \<in> set (json_payloads reqs). \<forall>r \<in> set ops. op_type r = n))"
proof (intro conjI impI allI)
  fix reqs
  assume "sink_json_request_list type prop sink_input (PInt n) = Inr reqs"
  from sink_json_payloads [OF this] obtain batches
    where p: "list_all2 (\<lambda>batch ops. \<exists>rows. py_iter batch = Inr rows \<and>
                list_all2 (\<lambda>row r. sink_json_row_op (PInt n) row = Inr r) rows ops)
                batches (json_payloads reqs)"
    by blast
  show "\<forall>ops \<in> set (json_payloads reqs). \<forall>r \<in> set ops. op_type r = n"
  proof (intro ballI)
    fix ops r
    assume "ops \<in> set (json_payloads reqs)" "r \<in> set ops"
    with p obtain rows where "list_all2 (\<lambda>row r. sink_json_row_op (PInt n) row = Inr r) rows ops"
      by (blast dest: list_all2_setD2)
    with \<open>r \<in> set ops\<close> obtain row where "sink_json_row_op (PInt n) row = Inr r"
      by (blast dest: list_all2_setD2)
    then show "op_type r = n" using assms(2) by (rule row_op_override)
  qed
next
  assume v: "valid_json_fixture sink_input"
  from assms(1) have a: "op_overlap_accepted (PInt n)"
    by (rule op_overlap_accepted_int)
  have "\<exists>reqs batches.
           sink_json_request_list type prop sink_input (PInt n) = Inr reqs \<and>
           sink_input = PList batches \<and>
           list_all2 (\<lambda>batch ops. \<exists>rows. batch = PList rows \<and>
                        list_all2 (\<lambda>row r. op_type r = n) rows ops)
             batches (json_payloads reqs)"
    using v a
  proof (rule valid_fixture_rows)
    fix row r
    assume "sink_json_row_op (PInt n) row = Inr r"
    then show "op_type r = n" using assms(2) by (rule row_op_override)
  qed
  then obtain reqs batches
    where r: "sink_json_request_list type prop sink_input (PInt n) = Inr reqs"
      and b: "sink_input = PList batches"
      and l: "list_all2 (\<lambda>batch ops. \<exists>rows. batch = PList rows \<and>
                        list_all2 (\<lambda>row r. op_type r = n) rows ops)
             batches (json_payloads reqs)"
    by blast
  from l have "list_all2 (\<lambda>batch ops. \<exists>rows. batch = PList rows \<and> length ops = length rows \<and>
                        (\<forall>r \<in> set ops. op_type r = n))
             batches (json_payloads reqs)"
  proof (rule list_all2_mono)
    fix batch ops
    assume "\<exists>rows. batch = PList rows \<and> list_all2 (\<lambda>row r. op_type r = n) rows ops"
    then obtain rows where p: "batch = PList rows" and q: "list_all2 (\<lambda>row r. op_type r = n) rows ops"
      by blast
    from q have "length ops = length rows"
      by (simp add: list_all2_lengthD)
    moreover from q have "\<forall>r \<in> set ops. op_type r = n"
      by (blast dest: list_all2_setD2)
    ultimately show "\<exists>rows. batch = PList rows \<and> length ops = length rows \<and>
                        (\<forall>r \<in> set ops. op_type r = n)"
      using p by blast
  qed
  with r b show "\<exists>reqs batches.
               sink_json_request_list type prop sink_input (PInt n) = Inr reqs \<and>
               sink_input = PList batches \<and>
               list_all2 (\<lambda>batch ops. \<exists>rows. batch = PList rows \<and> length ops = length rows \<and>
                            (\<forall>r \<in> set ops. op_type r = n))
                 batches (json_payloads reqs)"
    by blast
qed

theorem sink_json_op_override_witness:
  "valid_json_fixture fixture_delete_row \<and> int32_range 1 \<and> (1::int) \<noteq> 0 \<and>
   sink_json_request_list ''file'' [] fixture_delete_row (PInt 1) =
     Inr [Start JSON \<lparr>connector_type = ''file'', properties = [], table_schema = make_mock_schema\<rparr>,
          Start_epoch 0,
          Write (Json_payload [\<lparr>op_type = 1, line = ''x''\<rparr>]) 1 0,
          Sync 0] \<and>
   (\<exists>reqs batches.
      sink_json_request_list ''file'' [] fixture_delete_row (PInt 1) = Inr reqs \<and>
      fixture_delete_row = PList batches \<and>
      list_all2 (\<lambda>batch ops. \<exists>rows. batch = PList rows \<and> length ops = length rows \<and>
                   (\<forall>r \<in> set ops. op_type r = 1))
        batches (json_payloads reqs))"
proof -
  note v = valid_fixture_delete_row
  have i: "int32_range 1" and z: "(1::int) \<noteq> 0"
    by (simp_all add: int32_range_small)
  from v sink_json_op_override [OF i z, of fixture_delete_row "''file''" "[]"]
  have e: "\<exists>reqs batches.
      sink_json_request_list ''file'' [] fixture_delete_row (PInt 1) = Inr reqs \<and>
      fixture_delete_row = PList batches \<and>
      list_all2 (\<lambda>batch ops. \<exists>rows. batch = PList rows \<and> length ops = length rows \<and>
                   (\<forall>r \<in> set ops. op_type r = 1))
        batches (json_payloads reqs)"
    by blast
  have l: "sink_json_request_list ''file'' [] fixture_delete_row (PInt 1) =
     Inr [Start JSON \<lparr>connector_type = ''file'', properties = [], table_schema = make_mock_schema\<rparr>,
          Start_epoch 0,
          Write (Json_payload [\<lparr>op_type = 1, line = ''x''\<rparr>]) 1 0,
          Sync 0]"
    by (rule sink_json_delete_row_one)
  from v i z l e show ?thesis
    by (intro conjI)
qed

subsection \<open>Lines and payload formats\<close>

text \<open>
  C10: for every row of a valid JSON fixture, and an \<^verbatim>\<open>op_overlap\<close> that is equal to \<^verbatim>\<open>False\<close>
  or that the constructor of \<^verbatim>\<open>RowOp\<close> accepts, the emitted \<^verbatim>\<open>RowOp\<close> has \<^verbatim>\<open>line\<close> equal to
  \<^verbatim>\<open>str(row['line'])\<close>, so a line that is a JSON object is rendered by \<^verbatim>\<open>str\<close> (with
  single quotes) and not as JSON; the \<^verbatim>\<open>RowOp\<close>s of each batch are in the order of the rows.
\<close>

theorem sink_json_line_str:
  assumes "valid_json_fixture sink_input" "op_overlap_accepted op_overlap"
  shows "\<exists>reqs batches.
           sink_json_request_list type prop sink_input op_overlap = Inr reqs \<and>
           sink_input = PList batches \<and>
           list_all2 (\<lambda>batch ops. \<exists>rows. batch = PList rows \<and>
                        list_all2 (\<lambda>row r. \<exists>l. py_getitem row ''line'' = Inr l \<and> line r = py_str l) rows ops)
             batches (json_payloads reqs)"
  using assms
proof (rule valid_fixture_rows)
  fix row r
  assume "sink_json_row_op op_overlap row = Inr r"
  then show "\<exists>l. py_getitem row ''line'' = Inr l \<and> line r = py_str l"
    by (rule row_op_line)
qed

lemma sink_json_two_batches:
  "sink_json_request_list type prop fixture_two_batches (PInt 1) =
     Inr [Start JSON \<lparr>connector_type = type, properties = prop, table_schema = make_mock_schema\<rparr>,
          Start_epoch 0,
          Write (Json_payload
                   [\<lparr>op_type = 1,
                     line = ''{'' @ [CHR 0x27] @ ''id'' @ [CHR 0x27] @ '': 1, '' @ [CHR 0x27] @ ''name'' @
                            [CHR 0x27] @ '': '' @ [CHR 0x27] @ ''a'' @ [CHR 0x27] @ ''}''\<rparr>,
                    \<lparr>op_type = 1,
                     line = ''{'' @ [CHR 0x27] @ ''id'' @ [CHR 0x27] @ '': 2, '' @ [CHR 0x27] @ ''name'' @
                            [CHR 0x27] @ '': '' @ [CHR 0x27] @ ''b'' @ [CHR 0x27] @ ''}''\<rparr>]) 1 0,
          Sync 0,
          Start_epoch 1,
          Write (Json_payload [\<lparr>op_type = 1, line = ''c''\<rparr>]) 2 1,
          Sync 1]"
  by (simp add: sink_json_request_list_def fixture_two_batches_def sink_json_row_op_def py_ne_def
      int32_range_def str_simps)

lemma valid_fixture_two_batches: "valid_json_fixture fixture_two_batches"
  by (simp add: fixture_two_batches_def int32_range_def)

theorem sink_json_line_str_witness:
  "valid_json_fixture fixture_two_batches \<and> op_overlap_accepted (PInt 1) \<and>
   (\<exists>reqs batches.
      sink_json_request_list ''jdbc'' jdbc_prop fixture_two_batches (PInt 1) = Inr reqs \<and>
      fixture_two_batches = PList batches \<and>
      list_all2 (\<lambda>batch ops. \<exists>rows. batch = PList rows \<and>
                   list_all2 (\<lambda>row r. \<exists>l. py_getitem row ''line'' = Inr l \<and> line r = py_str l) rows ops)
        batches (json_payloads reqs)) \<and>
   map (map line) (json_payloads (projr (sink_json_request_list ''jdbc'' jdbc_prop fixture_two_batches (PInt 1)))) =
     [[''{'' @ [CHR 0x27] @ ''id'' @ [CHR 0x27] @ '': 1, '' @ [CHR 0x27] @ ''name'' @
         [CHR 0x27] @ '': '' @ [CHR 0x27] @ ''a'' @ [CHR 0x27] @ ''}'',
       ''{'' @ [CHR 0x27] @ ''id'' @ [CHR 0x27] @ '': 2, '' @ [CHR 0x27] @ ''name'' @
         [CHR 0x27] @ '': '' @ [CHR 0x27] @ ''b'' @ [CHR 0x27] @ ''}''],
      [''c'']]"
proof -
  note v = valid_fixture_two_batches
  have a: "op_overlap_accepted (PInt 1)"
    by (simp add: op_overlap_accepted_int int32_range_small)
  have e: "map (map line) (json_payloads (projr (sink_json_request_list ''jdbc'' jdbc_prop fixture_two_batches (PInt 1)))) =
     [[''{'' @ [CHR 0x27] @ ''id'' @ [CHR 0x27] @ '': 1, '' @ [CHR 0x27] @ ''name'' @
         [CHR 0x27] @ '': '' @ [CHR 0x27] @ ''a'' @ [CHR 0x27] @ ''}'',
       ''{'' @ [CHR 0x27] @ ''id'' @ [CHR 0x27] @ '': 2, '' @ [CHR 0x27] @ ''name'' @
         [CHR 0x27] @ '': '' @ [CHR 0x27] @ ''b'' @ [CHR 0x27] @ ''}''],
      [''c'']]"
    by (simp add: sink_json_two_batches)
  from v a sink_json_line_str [OF v a, of "''jdbc''" jdbc_prop] e
  show ?thesis by (intro conjI)
qed

text \<open>
  C8: in a session built by \<^verbatim>\<open>test_sink_json\<close> the \<^verbatim>\<open>Start\<close> message carries the tag JSON
  and every \<^verbatim>\<open>Write\<close> after it carries a JSON payload; in a session built by
  \<^verbatim>\<open>test_sink_stream_chunk\<close> the tag is STREAM_CHUNK and every \<^verbatim>\<open>Write\<close> carries a stream chunk
  payload. A \<^verbatim>\<open>Write\<close> carries one payload kind, never both. A valid fixture, with an
  \<^verbatim>\<open>op_overlap\<close> that is equal to \<^verbatim>\<open>False\<close> or that the constructor of \<^verbatim>\<open>RowOp\<close> accepts, builds
  such a JSON session.
\<close>

theorem session_format_consistent:
  "(valid_json_fixture sink_input \<and> op_overlap_accepted op_overlap \<longrightarrow>
      (\<exists>reqs. sink_json_request_list type prop sink_input op_overlap = Inr reqs)) \<and>
   (\<forall>reqs. sink_json_request_list type prop sink_input op_overlap = Inr reqs \<longrightarrow>
      session_format reqs = Some JSON \<and> format_consistent reqs) \<and>
   session_format (sink_stream_chunk_request_list type prop data schema) = Some STREAM_CHUNK \<and>
   format_consistent (sink_stream_chunk_request_list type prop data schema) \<and>
   (\<forall>p. (payload_format p = JSON) \<noteq> (payload_format p = STREAM_CHUNK))"
proof (intro conjI allI impI)
  assume "valid_json_fixture sink_input \<and> op_overlap_accepted op_overlap"
  then show "\<exists>reqs. sink_json_request_list type prop sink_input op_overlap = Inr reqs"
    by (blast intro: valid_fixture_returns)
next
  fix reqs
  assume r: "sink_json_request_list type prop sink_input op_overlap = Inr reqs"
  from sink_json_request_list_Inr [OF r] obtain pls
    where e: "reqs = Start JSON \<lparr>connector_type = type, properties = prop, table_schema = make_mock_schema\<rparr>
                  # session_triples 0 pls"
    by blast
  show "session_format reqs = Some JSON"
    by (simp add: e)
  have "list_all (write_has_format JSON) (session_triples k pls)" for k
    by (induction pls arbitrary: k) simp_all
  then show "format_consistent reqs"
    by (simp add: e)
next
  show "session_format (sink_stream_chunk_request_list type prop data schema) = Some STREAM_CHUNK"
    by (simp add: sink_stream_chunk_request_list_def)
  show "format_consistent (sink_stream_chunk_request_list type prop data schema)"
    by (simp add: sink_stream_chunk_request_list_def)
  fix p
  show "(payload_format p = JSON) \<noteq> (payload_format p = STREAM_CHUNK)"
    by (cases p) simp_all
qed

theorem session_format_consistent_witness:
  "valid_json_fixture fixture_two_batches \<and> op_overlap_accepted (PInt 1) \<and>
   (\<exists>reqs. sink_json_request_list ''file'' [] fixture_two_batches (PInt 1) = Inr reqs \<and>
      session_format reqs = Some JSON \<and> format_consistent reqs) \<and>
   session_format (sink_stream_chunk_request_list ''file'' [] [1, 2, 3] make_mock_schema) = Some STREAM_CHUNK \<and>
   format_consistent (sink_stream_chunk_request_list ''file'' [] [1, 2, 3] make_mock_schema)"
proof -
  note v = valid_fixture_two_batches
  have a: "op_overlap_accepted (PInt 1)"
    by (simp add: op_overlap_accepted_int int32_range_small)
  note t = session_format_consistent [of fixture_two_batches "PInt 1" "''file''" "[]" "[1, 2, 3]" make_mock_schema]
  from t v a obtain reqs where r: "sink_json_request_list ''file'' [] fixture_two_batches (PInt 1) = Inr reqs"
    by blast
  with t have "session_format reqs = Some JSON \<and> format_consistent reqs"
    by blast
  with r v a t show ?thesis by blast
qed

subsection \<open>The stream driver and the binary session\<close>

lemma drain_responses_abort:
  "length (replies evs) < length reqs \<Longrightarrow>
   drain_responses reqs evs out =
     (Exited 1,
      out @ concat (map2 (\<lambda>req r. [Print_request req, Print_response_ok r]) reqs (replies evs)) @
      [Print_request (reqs ! length (replies evs)), Print_failed (first_failure evs)])"
proof (induction reqs evs out rule: drain_responses.induct)
  case (1 response_iter out)
  then show ?case by simp
next
  case (2 req reqs out)
  show ?case by simp
next
  case (3 req reqs e response_iter out)
  show ?case by simp
next
  case (4 req reqs r response_iter out)
  then show ?case by simp
qed

lemma drain_responses_complete:
  "length reqs \<le> length (replies evs) \<Longrightarrow>
   drain_responses reqs evs out =
     (Returned, out @ concat (map2 (\<lambda>req r. [Print_request req, Print_response_ok r]) reqs (replies evs)))"
proof (induction reqs evs out rule: drain_responses.induct)
  case (1 response_iter out)
  show ?case by simp
next
  case (2 req reqs out)
  then show ?case by simp
next
  case (3 req reqs e response_iter out)
  then show ?case by simp
next
  case (4 req reqs r response_iter out)
  then show ?case by simp
qed

text \<open>
  C2: when the response iterator fails before it has given one response for each request,
  because the responses run out or because \<^verbatim>\<open>next\<close> raises, the drain loop of
  \<^verbatim>\<open>test_sink_json\<close> and of \<^verbatim>\<open>test_sink_stream_chunk\<close> prints the responses received so far,
  then the request that got no response and the failure, and ends the process with
  \<^verbatim>\<open>exit(1)\<close>. Nothing is printed after the failure and no later event is read.
\<close>

theorem stream_driver_aborts:
  assumes "length (replies (SinkStream env reqs)) < length reqs"
  shows "(load_input env input_file = Inr sink_input \<and>
          sink_json_request_list type prop sink_input op_overlap = Inr reqs \<longrightarrow>
            test_sink_json env type prop input_file op_overlap =
              (Exited 1,
               concat (map2 (\<lambda>req r. [Print_request req, Print_response_ok r])
                         reqs (replies (SinkStream env reqs))) @
               [Print_request (reqs ! length (replies (SinkStream env reqs))),
                Print_failed (first_failure (SinkStream env reqs))])) \<and>
         (load_binary_input env input_file = Inr data \<and>
          sink_stream_chunk_request_list type prop data schema = reqs \<longrightarrow>
            test_sink_stream_chunk env type prop input_file schema =
              (Exited 1,
               concat (map2 (\<lambda>req r. [Print_request req, Print_response_ok r])
                         reqs (replies (SinkStream env reqs))) @
               [Print_request (reqs ! length (replies (SinkStream env reqs))),
                Print_failed (first_failure (SinkStream env reqs))])) \<and>
         Exited 1 \<noteq> Exited 0"
  using drain_responses_abort [OF assms, of "[]"]
  by (auto simp: test_sink_json_def test_sink_stream_chunk_def)


theorem stream_driver_aborts_witness:
  "length (replies (SinkStream failing_service
             (sink_stream_chunk_request_list ''file'' [] fixture_37_bytes make_mock_schema)))
     < length (sink_stream_chunk_request_list ''file'' [] fixture_37_bytes make_mock_schema) \<and>
   load_binary_input failing_service ''sink_input'' = Inr fixture_37_bytes \<and>
   test_sink_stream_chunk failing_service ''file'' [] ''sink_input'' make_mock_schema =
     (Exited 1,
      [Print_request (Start STREAM_CHUNK \<lparr>connector_type = ''file'', properties = [],
                                         table_schema = make_mock_schema\<rparr>),
       Print_response_ok 0,
       Print_request (Start_epoch 0),
       Print_response_ok 1,
       Print_request (Write (Stream_chunk_payload fixture_37_bytes) 1 0),
       Print_failed (RpcError ''unavailable'')]) \<and>
   load_input failing_service ''sink_input.json'' = Inr fixture_two_batches \<and>
   fst (test_sink_json failing_service ''file'' [] ''sink_input.json'' (PInt 1)) = Exited 1 \<and>
   last (snd (test_sink_json failing_service ''file'' [] ''sink_input.json'' (PInt 1))) =
     Print_failed (RpcError ''unavailable'')"
proof -
  let ?chunk = "sink_stream_chunk_request_list ''file'' [] fixture_37_bytes make_mock_schema"
  have s: "SinkStream failing_service reqs = [Reply 0, Reply 1, Raise (RpcError ''unavailable''), Reply 3]"
    for reqs
    by (simp add: failing_service_def)
  have c: "length (replies (SinkStream failing_service ?chunk)) < length ?chunk"
    by (simp add: s sink_stream_chunk_request_list_def)
  have lb: "load_binary_input failing_service ''sink_input'' = Inr fixture_37_bytes"
    by (simp add: load_binary_input_def failing_service_def)
  from stream_driver_aborts [OF c, of "''sink_input''" fixture_two_batches "''file''" "[]" "PInt 1"
      fixture_37_bytes make_mock_schema] lb
  have chunk: "test_sink_stream_chunk failing_service ''file'' [] ''sink_input'' make_mock_schema =
     (Exited 1,
      [Print_request (Start STREAM_CHUNK \<lparr>connector_type = ''file'', properties = [],
                                         table_schema = make_mock_schema\<rparr>),
       Print_response_ok 0,
       Print_request (Start_epoch 0),
       Print_response_ok 1,
       Print_request (Write (Stream_chunk_payload fixture_37_bytes) 1 0),
       Print_failed (RpcError ''unavailable'')])"
    by (simp add: s sink_stream_chunk_request_list_def)
  obtain reqs where r: "sink_json_request_list ''file'' [] fixture_two_batches (PInt 1) = Inr reqs"
    and n: "length reqs = 7"
    by (simp add: sink_json_two_batches)
  have j: "length (replies (SinkStream failing_service reqs)) < length reqs"
    by (simp add: s n)
  have lj: "load_input failing_service ''sink_input.json'' = Inr fixture_two_batches"
    by (simp add: load_input_def failing_service_def)
  from stream_driver_aborts [OF j, of "''sink_input.json''" fixture_two_batches "''file''" "[]" "PInt 1"] lj r
  have json: "fst (test_sink_json failing_service ''file'' [] ''sink_input.json'' (PInt 1)) = Exited 1 \<and>
     last (snd (test_sink_json failing_service ''file'' [] ''sink_input.json'' (PInt 1))) =
       Print_failed (RpcError ''unavailable'')"
    by (simp add: s)
  from c lb chunk lj json show ?thesis by (intro conjI) simp_all
qed

text \<open>
  C4: for a binary fixture of any size, \<^verbatim>\<open>test_sink_stream_chunk\<close> builds the \<^verbatim>\<open>Start\<close>
  message followed by exactly one triple \<^verbatim>\<open>StartEpoch(0)\<close>, \<^verbatim>\<open>Write(batch_id = 1, epoch = 0)\<close>,
  \<^verbatim>\<open>Sync(0)\<close>, and the \<^verbatim>\<open>binary_data\<close> of the single \<^verbatim>\<open>Write\<close> is the bytes of the fixture.
\<close>

theorem stream_chunk_session:
  assumes "load_binary_input env input_file = Inr data"
  shows "sink_stream_chunk_request_list type prop data schema =
           [Start STREAM_CHUNK \<lparr>connector_type = type, properties = prop, table_schema = schema\<rparr>,
            Start_epoch 0, Write (Stream_chunk_payload data) 1 0, Sync 0] \<and>
         stream_chunk_payloads (sink_stream_chunk_request_list type prop data schema) = [data] \<and>
         json_payloads (sink_stream_chunk_request_list type prop data schema) = [] \<and>
         test_sink_stream_chunk env type prop input_file schema =
           drain_responses
             [Start STREAM_CHUNK \<lparr>connector_type = type, properties = prop, table_schema = schema\<rparr>,
              Start_epoch 0, Write (Stream_chunk_payload data) 1 0, Sync 0]
             (SinkStream env
                [Start STREAM_CHUNK \<lparr>connector_type = type, properties = prop, table_schema = schema\<rparr>,
                 Start_epoch 0, Write (Stream_chunk_payload data) 1 0, Sync 0])
             []"
  using assms by (simp add: test_sink_stream_chunk_def sink_stream_chunk_request_list_def)

theorem stream_chunk_session_witness:
  "load_binary_input failing_service ''sink_input'' = Inr fixture_37_bytes \<and>
   length fixture_37_bytes = 37 \<and>
   sink_stream_chunk_request_list ''file'' [] fixture_37_bytes make_mock_schema_stream_chunk =
     [Start STREAM_CHUNK \<lparr>connector_type = ''file'', properties = [],
                           table_schema = make_mock_schema_stream_chunk\<rparr>,
      Start_epoch 0, Write (Stream_chunk_payload fixture_37_bytes) 1 0, Sync 0] \<and>
   stream_chunk_payloads
     (sink_stream_chunk_request_list ''file'' [] fixture_37_bytes make_mock_schema_stream_chunk) =
     [fixture_37_bytes]"
proof -
  have lb: "load_binary_input failing_service ''sink_input'' = Inr fixture_37_bytes"
    by (simp add: load_binary_input_def failing_service_def)
  have n: "length fixture_37_bytes = 37"
    by (simp add: fixture_37_bytes_def)
  from stream_chunk_session [OF lb, of "''file''" "[]" make_mock_schema_stream_chunk] lb n
  show ?thesis by blast
qed

subsection \<open>The comparison of stored and expected rows\<close>

lemma length_tuple_items: "length (tuple_items e) = 2"
  by (cases e) simp

lemma tuple_items_nth: "tuple_items e ! 0 = fst e" "tuple_items e ! Suc 0 = snd e"
  by (cases e; simp)+

lemma upt_0_2: "[0..<2] = [0, Suc 0]"
  by (simp add: numeral_2_eq_2)

lemma compare_columns_None:
  "compare_columns js i row e = None \<longleftrightarrow> (\<forall>j \<in> set js. \<not> py_ne (row ! j) (e ! j))"
  by (induction js) auto


lemma row_matches_columns:
  "row_matches row e \<longleftrightarrow>
     length row = 2 \<and> compare_columns [0..<2] i row (tuple_items e) = None"
  by (auto simp: row_matches_def compare_columns_None upt_0_2 tuple_items_nth)

lemma compare_rows_step:
  "row_matches (rows ! i) (expected ! i) \<Longrightarrow>
   compare_rows (i # is) rows expected = compare_rows is rows expected"
  using row_matches_columns [of "rows ! i" "expected ! i" i]
  by (simp add: length_tuple_items)

lemma compare_rows_None:
  "compare_rows is rows expected = None \<longleftrightarrow>
     (\<forall>i \<in> set is. row_matches (rows ! i) (expected ! i))"
proof (induction "is")
  case Nil
  show ?case by simp
next
  case (Cons i "is")
  show ?case
  proof (cases "row_matches (rows ! i) (expected ! i)")
    case True
    then show ?thesis by (simp add: compare_rows_step Cons.IH del: compare_rows.simps)
  next
    case False
    then show ?thesis
      using row_matches_columns [of "rows ! i" "expected ! i" i]
      by (auto simp: length_tuple_items split: option.splits)
  qed
qed








subsection \<open>The expected rows\<close>

lemma list_all2_concat:
  "list_all2 (\<lambda>b vss. \<exists>rows. P b rows \<and> list_all2 Q rows vss) bs vsss \<Longrightarrow>
   \<exists>rowss. list_all2 P bs rowss \<and> list_all2 Q (concat rowss) (concat vsss)"
proof (induction bs vsss rule: list_all2_induct)
  case Nil
  show ?case by simp
next
  case (Cons b bs vss vsss)
  then obtain rows rowss where "P b rows" "list_all2 Q rows vss"
    "list_all2 P bs rowss" "list_all2 Q (concat rowss) (concat vsss)"
    by blast
  then have "list_all2 P (b # bs) (rows # rowss) \<and>
             list_all2 Q (concat (rows # rowss)) (concat (vss # vsss))"
    by (simp add: list_all2_appendI)
  then show ?case by blast
qed

lemma fixture_values_Inr:
  assumes "fixture_values fx = Inr vss"
  shows "\<exists>batches rowss. py_iter fx = Inr batches \<and>
           list_all2 (\<lambda>b rows. py_iter b = Inr rows) batches rowss \<and>
           list_all2 (\<lambda>row item. py_values row = Inr item) (concat rowss) vss"
proof -
  from assms obtain batches vsss where b: "py_iter fx = Inr batches"
    and c: "comprehension batch_values batches = Inr vsss" and v: "vss = concat vsss"
    by (auto simp: fixture_values_def split: sum.splits)
  from c have "list_all2 (\<lambda>b vss. batch_values b = Inr vss) batches vsss"
    by (rule comprehension_Inr_D)
  then have "list_all2 (\<lambda>b vss. \<exists>rows. py_iter b = Inr rows \<and>
               list_all2 (\<lambda>row item. py_values row = Inr item) rows vss) batches vsss"
    by (rule list_all2_mono) (auto simp: batch_values_def comprehension_Inr_iff split: sum.splits)
  from list_all2_concat [OF this] b v show ?thesis by blast
qed

lemma expected_rows_Inr:
  assumes "expected_rows fx = Inr expected"
  shows "\<exists>batches rowss. py_iter fx = Inr batches \<and>
           list_all2 (\<lambda>b rows. py_iter b = Inr rows) batches rowss \<and>
           list_all2 (\<lambda>row t. row_tuple row = Inr t) (concat rowss) expected"
proof -
  from assms obtain vss where f: "fixture_values fx = Inr vss"
    and c: "comprehension convert_item vss = Inr expected"
    by (auto simp: expected_rows_def convert_def split: sum.splits)
  from fixture_values_Inr [OF f] obtain batches rowss where b: "py_iter fx = Inr batches"
    and r: "list_all2 (\<lambda>b rows. py_iter b = Inr rows) batches rowss"
    and v: "list_all2 (\<lambda>row item. py_values row = Inr item) (concat rowss) vss"
    by blast
  from c have t: "list_all2 (\<lambda>item t. convert_item item = Inr t) vss expected"
    by (rule comprehension_Inr_D)
  have "list_all2 (\<lambda>row t. row_tuple row = Inr t) (concat rowss) expected"
  proof (rule list_all2_all_nthI)
    show "length (concat rowss) = length expected"
      using v t by (simp add: list_all2_lengthD)
  next
    fix n
    assume "n < length (concat rowss)"
    with v t have "py_values (concat rowss ! n) = Inr (vss ! n)"
      "convert_item (vss ! n) = Inr (expected ! n)"
      by (simp_all add: list_all2_conv_all_nth)
    then show "row_tuple (concat rowss ! n) = Inr (expected ! n)"
      by (simp add: row_tuple_def)
  qed
  with b r show ?thesis by blast
qed

lemma is_jdbc_row_tuple: "is_jdbc_row row \<Longrightarrow> \<exists>item. py_values row = Inr item \<and> (\<exists>t. convert_item item = Inr t)"
proof (cases row)
  case (PDict kvs)
  assume "is_jdbc_row row"
  with PDict have l: "1 < length kvs" and j: "is_jdbc_line (snd (kvs ! 1))"
    by simp_all
  from j obtain m where m: "snd (kvs ! 1) = PDict m" "map_of m ''id'' \<noteq> None" "map_of m ''name'' \<noteq> None"
    by (cases "snd (kvs ! 1)") simp_all
  with l have "\<exists>t. convert_item (map snd kvs) = Inr t"
    by (auto simp: convert_item_def)
  with PDict show ?thesis by simp
qed simp_all

lemma is_jdbc_batch_values: "is_jdbc_batch b \<Longrightarrow>
  \<exists>vss. batch_values b = Inr vss \<and> (\<forall>item \<in> set vss. \<exists>t. convert_item item = Inr t)"
proof (cases b)
  case (PList rows)
  assume "is_jdbc_batch b"
  with PList have r: "\<And>row. row \<in> set rows \<Longrightarrow> \<exists>item. py_values row = Inr item"
    and a: "\<forall>row \<in> set rows. is_jdbc_row row"
    by (auto simp: list_all_iff dest: is_jdbc_row_tuple)
  from comprehension_total [of rows py_values, OF r] obtain vss
    where c: "comprehension py_values rows = Inr vss"
    by blast
  then have l: "list_all2 (\<lambda>row item. py_values row = Inr item) rows vss"
    by (rule comprehension_Inr_D)
  have "\<forall>item \<in> set vss. \<exists>t. convert_item item = Inr t"
  proof
    fix item
    assume "item \<in> set vss"
    with l obtain row where "row \<in> set rows" "py_values row = Inr item"
      by (blast dest: list_all2_setD2)
    with a show "\<exists>t. convert_item item = Inr t"
      by (auto dest!: is_jdbc_row_tuple)
  qed
  with c PList show ?thesis by (simp add: batch_values_def)
qed simp_all

lemma comprehension_total_all:
  "(\<And>x. x \<in> set xs \<Longrightarrow> \<exists>y. f x = Inr y \<and> P y) \<Longrightarrow>
   \<exists>ys. comprehension f xs = Inr ys \<and> (\<forall>y \<in> set ys. P y)"
proof (induction xs)
  case Nil
  show ?case by simp
next
  case (Cons x xs)
  from Cons.prems obtain y where y: "f x = Inr y" "P y" by auto
  from Cons obtain ys where "comprehension f xs = Inr ys" "\<forall>y \<in> set ys. P y" by auto
  with y show ?case by simp
qed

lemma jdbc_fixture_returns:
  assumes "jdbc_fixture fx"
  shows "\<exists>expected. expected_rows fx = Inr expected"
proof (cases fx)
  case (PList batches)
  have "\<exists>vss. batch_values b = Inr vss \<and> (\<forall>item \<in> set vss. \<exists>t. convert_item item = Inr t)"
    if "b \<in> set batches" for b
  proof -
    from that assms PList have "is_jdbc_batch b"
      by (simp add: list_all_iff)
    then show ?thesis by (rule is_jdbc_batch_values)
  qed
  from comprehension_total_all [of batches batch_values
      "\<lambda>vss. \<forall>item \<in> set vss. \<exists>t. convert_item item = Inr t", OF this]
  obtain vsss where c: "comprehension batch_values batches = Inr vsss"
    and a: "\<forall>vss \<in> set vsss. \<forall>item \<in> set vss. \<exists>t. convert_item item = Inr t"
    by blast
  from a have "\<And>item. item \<in> set (concat vsss) \<Longrightarrow> \<exists>t. convert_item item = Inr t"
    by auto
  from comprehension_total [of "concat vsss" convert_item, OF this] c PList
  show ?thesis by (simp add: expected_rows_def fixture_values_def convert_def)
qed (use assms in simp_all)


lemma list_all2_PList: "list_all2 (\<lambda>b rows. b = PList rows) batches rowss \<Longrightarrow> batches = map PList rowss"
  by (induction batches rowss rule: list_all2_induct) simp_all

lemma validate_jdbc_sink_eq:
  "load_input env input_file = Inr fx \<Longrightarrow> expected_rows fx = Inr expected \<Longrightarrow>
   database env = Inr rows \<Longrightarrow>
   validate_jdbc_sink env input_file = compare_with_expected rows expected"
  by (simp add: validate_jdbc_sink_def validate_expected_def)

text \<open>
  C6, amended: for every JSON fixture whose rows are objects whose second member is an
  object with the members \<^verbatim>\<open>id\<close> and \<^verbatim>\<open>name\<close>, the expected rows of \<^verbatim>\<open>validate_jdbc_sink\<close>
  are one tuple for each fixture row, in fixture order with the batches flattened in order.
  They are a function of the content of the fixture file alone: every environment that
  loads this fixture gets the same expected rows, and \<^verbatim>\<open>test_jdbc_sink\<close> compares the store
  with them whether the session was sent as JSON or as a stream chunk.
\<close>

theorem expected_rows_of_fixture:
  assumes "jdbc_fixture sink_input"
  shows "\<exists>rowss expected.
           sink_input = PList (map PList rowss) \<and>
           expected_rows sink_input = Inr expected \<and>
           length expected = length (concat rowss) \<and>
           list_all2 (\<lambda>row t. row_tuple row = Inr t) (concat rowss) expected \<and>
           (\<forall>(env :: 'r environment) input_file.
              load_input env input_file = Inr sink_input \<longrightarrow>
                validate_expected env input_file = Inr expected \<and>
                (\<forall>rows. database env = Inr rows \<longrightarrow>
                   validate_jdbc_sink env input_file = compare_with_expected rows expected \<and>
                   (\<forall>input_binary_file use_json.
                      fst (if use_json
                           then test_sink_json env ''jdbc'' jdbc_prop input_file (PInt 1)
                           else test_sink_stream_chunk env ''jdbc'' jdbc_prop input_binary_file
                                  make_mock_schema) = Returned \<longrightarrow>
                      fst (test_jdbc_sink env input_file input_binary_file use_json) =
                        fst (compare_with_expected rows expected :: outcome \<times> 'r printed list))))"
proof -
  from jdbc_fixture_returns [OF assms] obtain expected
    where e: "expected_rows sink_input = Inr expected"
    by blast
  from expected_rows_Inr [OF e] obtain batches rowss
    where b: "py_iter sink_input = Inr batches"
      and r: "list_all2 (\<lambda>b rows. py_iter b = Inr rows) batches rowss"
      and t: "list_all2 (\<lambda>row t. row_tuple row = Inr t) (concat rowss) expected"
    by blast
  from assms b have fx: "sink_input = PList batches" and jb: "\<forall>b \<in> set batches. is_jdbc_batch b"
    by (cases sink_input; simp add: list_all_iff)+
  have "list_all2 (\<lambda>b rows. b = PList rows) batches rowss"
  proof (rule list_all2_all_nthI)
    show "length batches = length rowss"
      using r by (rule list_all2_lengthD)
  next
    fix n
    assume n: "n < length batches"
    with r have "py_iter (batches ! n) = Inr (rowss ! n)"
      by (simp add: list_all2_conv_all_nth)
    moreover from jb n have "is_jdbc_batch (batches ! n)"
      by simp
    ultimately show "batches ! n = PList (rowss ! n)"
      by (cases "batches ! n") simp_all
  qed
  then have m: "batches = map PList rowss"
    by (rule list_all2_PList)
  have len: "length expected = length (concat rowss)"
    using t by (simp add: list_all2_lengthD)
  have v: "validate_expected env input_file = Inr expected \<and>
           (\<forall>rows. database env = Inr rows \<longrightarrow>
              validate_jdbc_sink env input_file = compare_with_expected rows expected \<and>
              (\<forall>input_binary_file use_json.
                 fst (if use_json
                      then test_sink_json env ''jdbc'' jdbc_prop input_file (PInt 1)
                      else test_sink_stream_chunk env ''jdbc'' jdbc_prop input_binary_file
                             make_mock_schema) = Returned \<longrightarrow>
                 fst (test_jdbc_sink env input_file input_binary_file use_json) =
                   fst (compare_with_expected rows expected :: outcome \<times> 'r printed list)))"
    if l: "load_input env input_file = Inr sink_input" for env :: "'r environment" and input_file
  proof (intro conjI allI impI)
    show "validate_expected env input_file = Inr expected"
      by (simp add: validate_expected_def l e)
  next
    fix rows
    assume d: "database env = Inr rows"
    show c: "validate_jdbc_sink env input_file = compare_with_expected rows expected"
      using l e d by (rule validate_jdbc_sink_eq)
    fix input_binary_file use_json
    assume "fst (if use_json
                 then test_sink_json env ''jdbc'' jdbc_prop input_file (PInt 1)
                 else test_sink_stream_chunk env ''jdbc'' jdbc_prop input_binary_file
                        make_mock_schema) = Returned"
    then show "fst (test_jdbc_sink env input_file input_binary_file use_json) =
                 fst (compare_with_expected rows expected :: outcome \<times> 'r printed list)"
      by (simp add: test_jdbc_sink_def and_then_def c)
  qed
  from fx m e len t v show ?thesis
    by blast
qed

text \<open>
  C6, as stated, fails on the fixture \<^verbatim>\<open>[[{"op_type":1,"line":"{\"id\":1,\"name\":\"a\"}"}]]\<close>,
  a sequence of batches of row objects with \<^verbatim>\<open>op_type\<close> and \<^verbatim>\<open>line\<close>: the line is a string,
  \<^verbatim>\<open>item[1]['id']\<close> raises \<^verbatim>\<open>TypeError\<close>, and no expected rows are computed.
\<close>

theorem expected_rows_counterexample:
  "valid_json_fixture fixture_string_line \<and> expected_rows fixture_string_line = Inl TypeError"
  by (simp add: fixture_string_line_def expected_rows_def fixture_values_def batch_values_def
      convert_def convert_item_def int32_range_def)


lemma replies_map_Reply: "replies (map (\<lambda>x. Reply (f x)) xs) = map f xs"
  by (induction xs) simp_all

lemma compare_with_expected_returns:
  assumes "list_all2 row_matches rows expected"
  shows "compare_with_expected rows expected = (Returned, [])"
proof -
  from assms have n: "length rows = length expected"
    and "\<forall>i \<in> set [0..<length rows]. row_matches (rows ! i) (expected ! i)"
    by (simp_all add: list_all2_conv_all_nth)
  then have "compare_rows [0..<length rows] rows expected = None"
    by (simp only: compare_rows_None)
  with n show ?thesis
    by (simp add: compare_with_expected_def)
qed

theorem expected_rows_of_fixture_witness:
  "jdbc_fixture fixture_object_lines \<and>
   (\<exists>rowss. fixture_object_lines = PList (map PList rowss) \<and> length (concat rowss) = 3) \<and>
   expected_rows fixture_object_lines =
     Inr [(PInt 1, PStr ''a''), (PInt 2, PStr ''b''), (PInt 3, PStr ''c'')] \<and>
   load_input jdbc_store ''sink_input.json'' = Inr fixture_object_lines \<and>
   validate_expected jdbc_store ''sink_input.json'' =
     Inr [(PInt 1, PStr ''a''), (PInt 2, PStr ''b''), (PInt 3, PStr ''c'')] \<and>
   fst (test_jdbc_sink jdbc_store ''sink_input.json'' ''sink_input'' True) = Returned \<and>
   fst (test_jdbc_sink jdbc_store ''sink_input.json'' ''sink_input'' False) = Returned"
proof -
  let ?expected = "[(PInt 1, PStr ''a''), (PInt 2, PStr ''b''), (PInt 3, PStr ''c'')]"
  let ?rows = "[[PInt 1, PStr ''a''], [PInt 2, PStr ''b''], [PInt 3, PStr ''c'']]"
  have jf: "jdbc_fixture fixture_object_lines"
    by (simp add: fixture_object_lines_def)
  have ev: "expected_rows fixture_object_lines = Inr ?expected"
    by (simp add: fixture_object_lines_def expected_rows_def fixture_values_def batch_values_def
        convert_def convert_item_def)
  have l: "load_input jdbc_store ''sink_input.json'' = Inr fixture_object_lines"
    by (simp add: load_input_def jdbc_store_def)
  have d: "database jdbc_store = Inr ?rows"
    by (simp add: jdbc_store_def)
  have s: "SinkStream jdbc_store reqs = map (\<lambda>req. Reply 0) reqs" for reqs
    by (simp add: jdbc_store_def)
  have dr: "fst (drain_responses reqs (SinkStream jdbc_store reqs) []) = Returned" for reqs
    by (simp add: s replies_map_Reply drain_responses_complete)
  have "valid_json_fixture fixture_object_lines"
    by (simp add: fixture_object_lines_def int32_range_def)
  moreover have "op_overlap_accepted (PInt 1)"
    by (simp add: op_overlap_accepted_int int32_range_small)
  ultimately obtain reqs
    where "sink_json_request_list ''jdbc'' jdbc_prop fixture_object_lines (PInt 1) = Inr reqs"
    using valid_fixture_returns by blast
  then have j: "fst (test_sink_json jdbc_store ''jdbc'' jdbc_prop ''sink_input.json'' (PInt 1)) = Returned"
    by (simp add: test_sink_json_def l dr)
  have c: "fst (test_sink_stream_chunk jdbc_store ''jdbc'' jdbc_prop ''sink_input'' make_mock_schema) = Returned"
    by (simp add: test_sink_stream_chunk_def load_binary_input_def jdbc_store_def replies_map_Reply
        drain_responses_complete)
  have m: "(compare_with_expected ?rows ?expected :: outcome \<times> nat printed list) = (Returned, [])"
    by (rule compare_with_expected_returns) (simp add: row_matches_def py_ne_def)
  from expected_rows_of_fixture [where ?'r = nat, OF jf] obtain rowss expected
    where f: "fixture_object_lines = PList (map PList rowss)"
      and e: "expected_rows fixture_object_lines = Inr expected"
      and n: "length expected = length (concat rowss)"
      and v: "\<forall>(env :: nat environment) input_file.
              load_input env input_file = Inr fixture_object_lines \<longrightarrow>
                validate_expected env input_file = Inr expected \<and>
                (\<forall>rows. database env = Inr rows \<longrightarrow>
                   validate_jdbc_sink env input_file = compare_with_expected rows expected \<and>
                   (\<forall>input_binary_file use_json.
                      fst (if use_json
                           then test_sink_json env ''jdbc'' jdbc_prop input_file (PInt 1)
                           else test_sink_stream_chunk env ''jdbc'' jdbc_prop input_binary_file
                                  make_mock_schema) = Returned \<longrightarrow>
                      fst (test_jdbc_sink env input_file input_binary_file use_json) =
                        fst (compare_with_expected rows expected :: outcome \<times> nat printed list)))"
    by blast
  from e ev have x: "expected = ?expected"
    by simp
  from v l have ve: "validate_expected jdbc_store ''sink_input.json'' = Inr expected"
    by blast
  from v l d have t: "fst (if use_json
                           then test_sink_json jdbc_store ''jdbc'' jdbc_prop ''sink_input.json'' (PInt 1)
                           else test_sink_stream_chunk jdbc_store ''jdbc'' jdbc_prop ''sink_input''
                                  make_mock_schema) = Returned \<Longrightarrow>
                      fst (test_jdbc_sink jdbc_store ''sink_input.json'' ''sink_input'' use_json) =
                        fst (compare_with_expected ?rows expected :: outcome \<times> nat printed list)"
    for use_json
    by blast
  from t [of True] j x m have tj: "fst (test_jdbc_sink jdbc_store ''sink_input.json'' ''sink_input'' True) = Returned"
    by simp
  from t [of False] c x m have tc: "fst (test_jdbc_sink jdbc_store ''sink_input.json'' ''sink_input'' False) = Returned"
    by simp
  from f n x have "\<exists>rowss. fixture_object_lines = PList (map PList rowss) \<and> length (concat rowss) = 3"
    by auto
  with jf ev l ve x tj tc show ?thesis
    by simp
qed

end
